theory Spec2Isabelle
  imports Main
begin

section \<open>Python values handled by the CSV writer\<close>

text \<open>
  A Python \<open>float\<close> is a signed dyadic number \<open>m * 2 ^ e\<close>, a signed infinity or
  a NaN. The sign is kept separately, so that \<open>-0.0\<close> is a value of its own.
\<close>

datatype pyfloat =
    Finite bool nat int
  | Infinity bool
  | NaN

datatype pyval =
    PNone
  | PBool bool
  | PInt int
  | PFloat pyfloat
  | PStr string
  | PDict "(string \<times> pyval) list"

type_synonym pydict = "(string \<times> pyval) list"

datatype exn =
    OSError
  | FileNotFoundError
  | FileExistsError
  | IsADirectoryError
  | NotADirectoryError
  | KeyError
  | AttributeError
  | ValueError
  | TypeError
  | OverflowError

text \<open>\<open>d.get(k, default)\<close>\<close>

definition dict_get :: "pydict \<Rightarrow> string \<Rightarrow> pyval \<Rightarrow> pyval" where
  "dict_get d k dflt = (case map_of d k of None \<Rightarrow> dflt | Some v \<Rightarrow> v)"

text \<open>Truth value of an object, as \<open>if\<close>, \<open>and\<close>, \<open>or\<close> and \<open>not\<close> take it.\<close>

fun truthy :: "pyval \<Rightarrow> bool" where
  "truthy PNone = False"
| "truthy (PBool b) = b"
| "truthy (PInt n) = (n \<noteq> 0)"
| "truthy (PFloat (Finite s m e)) = (m \<noteq> 0)"
| "truthy (PFloat (Infinity s)) = True"
| "truthy (PFloat NaN) = True"
| "truthy (PStr s) = (s \<noteq> [])"
| "truthy (PDict d) = (d \<noteq> [])"

subsection \<open>Decimal rendering\<close>

definition digit_char :: "nat \<Rightarrow> char" where
  "digit_char n = ''0123456789'' ! (n mod 10)"

fun show_nat :: "nat \<Rightarrow> string" where
  "show_nat n = (if n < 10 then [digit_char n] else show_nat (n div 10) @ [digit_char n])"

definition show_int :: "int \<Rightarrow> string" where
  "show_int i = (if i < 0 then CHR ''-'' # show_nat (nat (- i)) else show_nat (nat i))"

subsection \<open>The format specification \<open>.2f\<close>\<close>

fun bit_length :: "nat \<Rightarrow> nat" where
  "bit_length n = (if n = 0 then 0 else Suc (bit_length (n div 2)))"

text \<open>Nearest integer to \<open>n / d\<close>, a tie going to the even neighbour.\<close>

definition round_half_even :: "nat \<Rightarrow> nat \<Rightarrow> nat" where
  "round_half_even n d =
     (let q = n div d; r = n mod d
      in if d < 2 * r \<or> (2 * r = d \<and> odd q) then q + 1 else q)"

text \<open>
  \<open>float(n)\<close> for an \<open>int\<close>: exact up to 53 bits, otherwise rounded to 53
  significant bits; \<open>OverflowError\<close> when the rounded value reaches \<open>2 ^ 1024\<close>.
\<close>

definition float_of_int :: "int \<Rightarrow> exn + pyfloat" where
  "float_of_int i =
     (let a = nat \<bar>i\<bar>; b = bit_length a
      in if b \<le> 53 then Inr (Finite (i < 0) a 0)
         else let sh = b - 53; m = round_half_even a (2 ^ sh)
              in if 2 ^ 1024 \<le> m * 2 ^ sh then Inl OverflowError
                 else Inr (Finite (i < 0) m (int sh)))"

text \<open>The value of a finite float times 100, rounded to an integer.\<close>

definition cents :: "nat \<Rightarrow> int \<Rightarrow> nat" where
  "cents m e =
     (if 0 \<le> e then m * 2 ^ nat e * 100 else round_half_even (m * 100) (2 ^ nat (- e)))"

fun format_float_2f :: "pyfloat \<Rightarrow> string" where
  "format_float_2f (Finite s m e) =
     (let c = cents m e
      in (if s then ''-'' else []) @ show_nat (c div 100) @ ''.'' @
         [digit_char (c mod 100 div 10), digit_char (c mod 10)])"
| "format_float_2f (Infinity s) = (if s then ''-inf'' else ''inf'')"
| "format_float_2f NaN = ''nan''"

text \<open>\<open>f"{v:.2f}"\<close>\<close>

fun format_2f :: "pyval \<Rightarrow> exn + string" where
  "format_2f (PFloat x) = Inr (format_float_2f x)"
| "format_2f (PInt i) =
     (case float_of_int i of Inl e \<Rightarrow> Inl e | Inr x \<Rightarrow> Inr (format_float_2f x))"
| "format_2f (PBool b) = Inr (if b then ''1.00'' else ''0.00'')"
| "format_2f PNone = Inl TypeError"
| "format_2f (PStr s) = Inl ValueError"
| "format_2f (PDict d) = Inl TypeError"

subsection \<open>The environment of a call\<close>

text \<open>
  What a call cannot decide by itself: which system calls fail, how much of a failing
  write still reaches the file, whether writing to the standard output raises (and what),
  and the text \<open>str\<close> gives for floats and non-empty mappings.
\<close>

record environment =
  makedirs_fails :: bool
  open_fails :: "string \<Rightarrow> bool"
  write_limit :: "string \<Rightarrow> nat option"
  print_fails :: "exn option"
  str_other :: "pyval \<Rightarrow> string"

text \<open>\<open>str(v)\<close>\<close>

fun py_str :: "environment \<Rightarrow> pyval \<Rightarrow> string" where
  "py_str E PNone = ''None''"
| "py_str E (PBool b) = (if b then ''True'' else ''False'')"
| "py_str E (PInt i) = show_int i"
| "py_str E (PStr s) = s"
| "py_str E (PDict []) = ''{}''"
| "py_str E v = str_other E v"

section \<open>The csv module\<close>

definition CR :: char where "CR = CHR 0x0D"
definition LF :: char where "LF = CHR 0x0A"
definition DQ :: char where "DQ = CHR 0x22"

text \<open>The text of one field: \<open>None\<close> is empty, a string is itself, the rest goes through \<open>str\<close>.\<close>

fun csv_cell :: "environment \<Rightarrow> pyval \<Rightarrow> string" where
  "csv_cell E PNone = []"
| "csv_cell E (PStr s) = s"
| "csv_cell E v = py_str E v"

definition csv_special :: "char \<Rightarrow> bool" where
  "csv_special c = (c = CHR '','' \<or> c = DQ \<or> c = CR \<or> c = LF)"

definition csv_quote :: "string \<Rightarrow> string" where
  "csv_quote s =
     (if list_ex csv_special s
      then DQ # concat (map (\<lambda>c. if c = DQ then [DQ, DQ] else [c]) s) @ [DQ]
      else s)"

fun join_comma :: "string list \<Rightarrow> string" where
  "join_comma [] = []"
| "join_comma [s] = s"
| "join_comma (s # t # ss) = s @ '','' @ join_comma (t # ss)"

text \<open>The line \<open>writer.writerow\<close> sends to the file for a row of at least two fields.\<close>

definition csv_line :: "string list \<Rightarrow> string" where
  "csv_line cells = join_comma (map csv_quote cells) @ [CR, LF]"

definition writerow :: "environment \<Rightarrow> pyval list \<Rightarrow> string" where
  "writerow E row = csv_line (map (csv_cell E) row)"

section \<open>The file system and the console\<close>

record world =
  dirs :: "string set"
  files :: "string \<rightharpoonup> string"
  printed :: "(string \<times> exn) list"

datatype open_mode = ModeW | ModeA

definition os_path_exists :: "world \<Rightarrow> string \<Rightarrow> bool" where
  "os_path_exists wd p = (p \<in> dirs wd \<or> files wd p \<noteq> None)"

definition os_path_join :: "string \<Rightarrow> string \<Rightarrow> string" where
  "os_path_join a b =
     (if b \<noteq> [] \<and> hd b = CHR ''/'' then b
      else if a = [] \<or> last a = CHR ''/'' then a @ b
      else a @ ''/'' @ b)"

definition dirname :: "string \<Rightarrow> string" where
  "dirname p = rev (drop 1 (dropWhile (\<lambda>c. c \<noteq> CHR ''/'') (rev p)))"

text \<open>The current directory, written \<open>''''\<close>, always exists.\<close>

definition is_dir :: "world \<Rightarrow> string \<Rightarrow> bool" where
  "is_dir wd d = (d = [] \<or> d \<in> dirs wd)"

definition file_content :: "world \<Rightarrow> string \<Rightarrow> string" where
  "file_content wd p = (case files wd p of None \<Rightarrow> [] | Some c \<Rightarrow> c)"

definition os_makedirs :: "environment \<Rightarrow> string \<Rightarrow> world \<Rightarrow> (exn + unit) \<times> world" where
  "os_makedirs E d wd =
     (if makedirs_fails E then (Inl OSError, wd)
      else if os_path_exists wd d then (Inl FileExistsError, wd)
      else (Inr (), wd\<lparr>dirs := insert d (dirs wd)\<rparr>))"

text \<open>
  \<open>open(p, mode, newline='')\<close>: mode \<open>w\<close> creates or truncates the file, mode
  \<open>a\<close> creates it when absent and keeps its content otherwise.
\<close>

definition open_file :: "environment \<Rightarrow> string \<Rightarrow> open_mode \<Rightarrow> world \<Rightarrow> (exn + unit) \<times> world" where
  "open_file E p mode wd =
     (if open_fails E p then (Inl OSError, wd)
      else if \<not> is_dir wd (dirname p)
      then (Inl (if files wd (dirname p) \<noteq> None then NotADirectoryError
                 else FileNotFoundError), wd)
      else if p \<in> dirs wd then (Inl IsADirectoryError, wd)
      else (Inr (),
            wd\<lparr>files := (files wd)(p \<mapsto> (case mode of ModeW \<Rightarrow> [] | ModeA \<Rightarrow> file_content wd p))\<rparr>))"

text \<open>
  Closing the file sends the buffered text to it. Nothing is sent for an empty buffer;
  a failing write leaves at most \<open>write_limit\<close> characters of the buffer in the file.
\<close>

definition close_file :: "environment \<Rightarrow> string \<Rightarrow> string \<Rightarrow> world \<Rightarrow> (exn + unit) \<times> world" where
  "close_file E p buf wd =
     (if buf = [] then (Inr (), wd)
      else case write_limit E p of
             None \<Rightarrow> (Inr (), wd\<lparr>files := (files wd)(p \<mapsto> file_content wd p @ buf)\<rparr>)
           | Some k \<Rightarrow> (Inl OSError, wd\<lparr>files := (files wd)(p \<mapsto> file_content wd p @ take k buf)\<rparr>))"

text \<open>
  \<open>with open(p, mode, newline='') as f: body\<close>, where the body has produced the text
  \<open>buf\<close> and ended with \<open>r\<close>. The file is closed whether or not the body raised.
\<close>

definition with_open ::
  "environment \<Rightarrow> string \<Rightarrow> open_mode \<Rightarrow> (exn + unit) \<times> string \<Rightarrow> world \<Rightarrow> (exn + unit) \<times> world" where
  "with_open E p mode body wd =
     (case open_file E p mode wd of
        (Inl e, wd1) \<Rightarrow> (Inl e, wd1)
      | (Inr u, wd1) \<Rightarrow>
          (case close_file E p (snd body) wd1 of
             (Inl e, wd2) \<Rightarrow> (Inl e, wd2)
           | (Inr u, wd2) \<Rightarrow> (fst body, wd2)))"

text \<open>
  \<open>print(f"msg{e}")\<close>: the line goes to the console, unless the standard output
  cannot be written (closed, a broken pipe), and then \<open>print\<close> raises.
\<close>

definition print :: "environment \<Rightarrow> string \<Rightarrow> exn \<Rightarrow> world \<Rightarrow> (exn + unit) \<times> world" where
  "print E msg e wd =
     (case print_fails E of
        Some x \<Rightarrow> (Inl x, wd)
      | None \<Rightarrow> (Inr (), wd\<lparr>printed := printed wd @ [(msg, e)]\<rparr>))"

section \<open>CSVWriter\<close>

record csv_writer =
  config :: pydict
  output_dir :: string
  data_file :: string
  hazard_file :: string
  data_path :: string
  hazard_path :: string
  append_mode :: pyval
  write_header_data :: bool
  write_header_hazard :: bool

text \<open>\<open>CSVWriter.__init__\<close>\<close>

definition CSVWriter_init :: "environment \<Rightarrow> pydict \<Rightarrow> world \<Rightarrow> (exn + csv_writer) \<times> world" where
  "CSVWriter_init E cfg wd =
     (case (if \<not> os_path_exists wd ''output_data'' then os_makedirs E ''output_data'' wd
            else (Inr (), wd)) of
        (Inl e, wd1) \<Rightarrow> (Inl e, wd1)
      | (Inr u, wd1) \<Rightarrow>
          (case map_of cfg ''simulation'' of
             None \<Rightarrow> (Inl KeyError, wd1)
           | Some (PDict sim) \<Rightarrow>
               (Inr \<lparr>config = cfg,
                     output_dir = ''output_data'',
                     data_file = ''simulation_data.csv'',
                     hazard_file = ''hazard_events.csv'',
                     data_path = os_path_join ''output_data'' ''simulation_data.csv'',
                     hazard_path = os_path_join ''output_data'' ''hazard_events.csv'',
                     append_mode = dict_get sim ''csv_append_mode'' (PBool True),
                     write_header_data = True,
                     write_header_hazard = True\<rparr>, wd1)
           | Some v \<Rightarrow> (Inl AttributeError, wd1)))"

definition data_header :: "pyval list" where
  "data_header = map PStr [''timestamp'', ''step'', ''vehicle_id'', ''type'', ''x'', ''y'',
     ''speed'', ''acceleration'', ''angle'', ''lane_id'', ''hazard_active'']"

definition hazard_header :: "pyval list" where
  "hazard_header = map PStr [''timestamp'', ''hazard_name'', ''metadata'']"

text \<open>
  \<open>CSVWriter.initialize_files\<close>: the body of the \<open>try\<close>, then the method. The
  \<open>print\<close> of the handler is under no \<open>try\<close>: what it raises leaves the method.
\<close>

definition decide_headers :: "csv_writer \<Rightarrow> world \<Rightarrow> csv_writer" where
  "decide_headers w wd =
     (let w1 = (if truthy (append_mode w) \<and> os_path_exists wd (data_path w)
                then w\<lparr>write_header_data := False\<rparr> else w)
      in if truthy (append_mode w1) \<and> os_path_exists wd (hazard_path w1)
         then w1\<lparr>write_header_hazard := False\<rparr> else w1)"

definition initialize_files_try ::
  "environment \<Rightarrow> csv_writer \<Rightarrow> world \<Rightarrow> (exn + bool) \<times> csv_writer \<times> world" where
  "initialize_files_try E w wd =
     (let w2 = decide_headers w wd
      in case (if \<not> truthy (append_mode w2) \<or> write_header_data w2
               then with_open E (data_path w2) ModeW (Inr (), writerow E data_header) wd
               else (Inr (), wd)) of
           (Inl e, wd1) \<Rightarrow> (Inl e, w2, wd1)
         | (Inr u, wd1) \<Rightarrow>
             (case (if \<not> truthy (append_mode w2) \<or> write_header_hazard w2
                    then with_open E (hazard_path w2) ModeW (Inr (), writerow E hazard_header) wd1
                    else (Inr (), wd1)) of
                (Inl e, wd2) \<Rightarrow> (Inl e, w2, wd2)
              | (Inr u, wd2) \<Rightarrow> (Inr True, w2, wd2)))"

definition initialize_files ::
  "environment \<Rightarrow> csv_writer \<Rightarrow> world \<Rightarrow> (exn + bool) \<times> csv_writer \<times> world" where
  "initialize_files E w wd =
     (case initialize_files_try E w wd of
        (Inl e, w', wd') \<Rightarrow>
          (case print E ''Failed to initialize CSV files: '' e wd' of
             (Inl x, wd'') \<Rightarrow> (Inl x, w', wd'')
           | (Inr u, wd'') \<Rightarrow> (Inr False, w', wd''))
      | (Inr b, w', wd') \<Rightarrow> (Inr b, w', wd'))"

text \<open>\<open>CSVWriter.write_data\<close>: one row, the loop over the records, the \<open>try\<close>, the method.\<close>

definition sample_cells :: "environment \<Rightarrow> pyval \<Rightarrow> pyval \<Rightarrow> pydict \<Rightarrow> exn + string list" where
  "sample_cells E timestamp step data =
     (case format_2f (dict_get data ''x'' (PInt 0)) of Inl e \<Rightarrow> Inl e | Inr fx \<Rightarrow>
      case format_2f (dict_get data ''y'' (PInt 0)) of Inl e \<Rightarrow> Inl e | Inr fy \<Rightarrow>
      case format_2f (dict_get data ''speed'' (PInt 0)) of Inl e \<Rightarrow> Inl e | Inr fs \<Rightarrow>
      case format_2f (dict_get data ''acceleration'' (PInt 0)) of Inl e \<Rightarrow> Inl e | Inr fa \<Rightarrow>
      case format_2f (dict_get data ''angle'' (PInt 0)) of Inl e \<Rightarrow> Inl e | Inr fg \<Rightarrow>
        Inr [csv_cell E timestamp,
             csv_cell E step,
             csv_cell E (dict_get data ''id'' (PStr [])),
             csv_cell E (dict_get data ''type'' (PStr [])),
             fx, fy, fs, fa, fg,
             csv_cell E (dict_get data ''lane'' (PStr [])),
             csv_cell E (dict_get data ''hazard_active'' (PBool False))])"

fun sample_rows ::
  "environment \<Rightarrow> pyval \<Rightarrow> pyval \<Rightarrow> pydict list \<Rightarrow> string \<Rightarrow> (exn + unit) \<times> string" where
  "sample_rows E timestamp step [] buf = (Inr (), buf)"
| "sample_rows E timestamp step (data # rest) buf =
     (case sample_cells E timestamp step data of
        Inl e \<Rightarrow> (Inl e, buf)
      | Inr cells \<Rightarrow> sample_rows E timestamp step rest (buf @ csv_line cells))"

definition write_data_try ::
  "environment \<Rightarrow> csv_writer \<Rightarrow> pydict list \<Rightarrow> pydict \<Rightarrow> world \<Rightarrow> (exn + unit) \<times> world" where
  "write_data_try E w sensor_data simulation_state wd =
     (let timestamp = dict_get simulation_state ''simulation_time'' (PInt 0);
          step = dict_get simulation_state ''step'' (PInt 0)
      in with_open E (data_path w) ModeA (sample_rows E timestamp step sensor_data []) wd)"

definition write_data ::
  "environment \<Rightarrow> csv_writer \<Rightarrow> pydict list \<Rightarrow> pydict \<Rightarrow> world \<Rightarrow> (exn + unit) \<times> world" where
  "write_data E w sensor_data simulation_state wd =
     (if sensor_data = [] then (Inr (), wd)
      else case write_data_try E w sensor_data simulation_state wd of
             (Inl e, wd') \<Rightarrow>
               (case print E ''Error writing data: '' e wd' of
                  (Inl x, wd'') \<Rightarrow> (Inl x, wd'')
                | (Inr u, wd'') \<Rightarrow> (Inr (), wd''))
           | (Inr u, wd') \<Rightarrow> (Inr (), wd'))"

text \<open>\<open>CSVWriter.write_hazard_event\<close>\<close>

definition hazard_row :: "environment \<Rightarrow> pydict \<Rightarrow> pyval list" where
  "hazard_row E hazard_event =
     [dict_get hazard_event ''timestamp'' (PInt 0),
      dict_get hazard_event ''hazard_name'' (PStr ''unknown''),
      PStr (py_str E (dict_get hazard_event ''metadata'' (PDict [])))]"

definition write_hazard_event_try ::
  "environment \<Rightarrow> csv_writer \<Rightarrow> pydict \<Rightarrow> world \<Rightarrow> (exn + unit) \<times> world" where
  "write_hazard_event_try E w hazard_event wd =
     with_open E (hazard_path w) ModeA (Inr (), writerow E (hazard_row E hazard_event)) wd"

definition write_hazard_event ::
  "environment \<Rightarrow> csv_writer \<Rightarrow> pydict \<Rightarrow> world \<Rightarrow> (exn + unit) \<times> world" where
  "write_hazard_event E w hazard_event wd =
     (case write_hazard_event_try E w hazard_event wd of
        (Inl e, wd') \<Rightarrow>
          (case print E ''Error writing hazard event: '' e wd' of
             (Inl x, wd'') \<Rightarrow> (Inl x, wd'')
           | (Inr u, wd'') \<Rightarrow> (Inr (), wd''))
      | (Inr u, wd') \<Rightarrow> (Inr (), wd'))"

section \<open>Vocabulary of the properties\<close>

text \<open>A text of the shape \<open>-?[0-9]+.[0-9][0-9]\<close>: exactly two digits after the point.\<close>

definition is_digit :: "char \<Rightarrow> bool" where
  "is_digit c = (c \<in> set ''0123456789'')"

definition two_decimals :: "string \<Rightarrow> bool" where
  "two_decimals s =
     (let t = (case s of [] \<Rightarrow> [] | c # r \<Rightarrow> if c = CHR ''-'' then r else s)
      in takeWhile is_digit t \<noteq> [] \<and>
         (case dropWhile is_digit t of
            [p, a, b] \<Rightarrow> p = CHR ''.'' \<and> is_digit a \<and> is_digit b
          | _ \<Rightarrow> False))"

definition non_finite :: "pyval \<Rightarrow> bool" where
  "non_finite v = (case v of PFloat (Infinity s) \<Rightarrow> True | PFloat NaN \<Rightarrow> True | _ \<Rightarrow> False)"

definition rendered_2f :: "pyval \<Rightarrow> string \<Rightarrow> bool" where
  "rendered_2f v c =
     (if non_finite v then c = ''inf'' \<or> c = ''-inf'' \<or> c = ''nan'' else two_decimals c)"

definition numeric :: "pyval \<Rightarrow> bool" where
  "numeric v =
     (case v of
        PFloat x \<Rightarrow> True
      | PBool b \<Rightarrow> True
      | PInt i \<Rightarrow> float_of_int i \<noteq> Inl OverflowError
      | _ \<Rightarrow> False)"

definition fmt2 :: "pyval \<Rightarrow> string" where
  "fmt2 v = (case format_2f v of Inl e \<Rightarrow> [] | Inr s \<Rightarrow> s)"

definition sample_ok :: "pydict \<Rightarrow> bool" where
  "sample_ok data =
     list_all (\<lambda>k. numeric (dict_get data k (PInt 0)))
       [''x'', ''y'', ''speed'', ''acceleration'', ''angle'']"

text \<open>
  The row of one sample record in the words of the specification: the shared timestamp
  and step, then the fields of the record, an absent one replaced by its default.
\<close>

definition spec_sample_line :: "environment \<Rightarrow> pyval \<Rightarrow> pyval \<Rightarrow> pydict \<Rightarrow> string" where
  "spec_sample_line E timestamp step data =
     csv_line
       [csv_cell E timestamp,
        csv_cell E step,
        csv_cell E (dict_get data ''id'' (PStr [])),
        csv_cell E (dict_get data ''type'' (PStr [])),
        fmt2 (dict_get data ''x'' (PInt 0)),
        fmt2 (dict_get data ''y'' (PInt 0)),
        fmt2 (dict_get data ''speed'' (PInt 0)),
        fmt2 (dict_get data ''acceleration'' (PInt 0)),
        fmt2 (dict_get data ''angle'' (PInt 0)),
        csv_cell E (dict_get data ''lane'' (PStr [])),
        csv_cell E (dict_get data ''hazard_active'' (PBool False))]"

text \<open>
  When a destination needs its header row, in the words of the specification: not in
  append mode, or in append mode with nothing yet at the path.
\<close>

definition spec_header_needed :: "csv_writer \<Rightarrow> world \<Rightarrow> string \<Rightarrow> bool" where
  "spec_header_needed w wd p = (\<not> truthy (append_mode w) \<or> \<not> os_path_exists wd p)"

text \<open>The two header rows as they stand in the files.\<close>

definition data_header_line :: string where
  "data_header_line =
     ''timestamp,step,vehicle_id,type,x,y,speed,acceleration,angle,lane_id,hazard_active'' @ [CR, LF]"

definition hazard_header_line :: string where
  "hazard_header_line = ''timestamp,hazard_name,metadata'' @ [CR, LF]"

definition header_line :: "csv_writer \<Rightarrow> string \<Rightarrow> string" where
  "header_line w p = (if p = data_path w then data_header_line else hazard_header_line)"

section \<open>Concrete inputs\<close>

definition quiet_env :: environment where
  "quiet_env = \<lparr>makedirs_fails = False, open_fails = (\<lambda>p. False),
     write_limit = (\<lambda>p. None), print_fails = None, str_other = (\<lambda>v. ''?'')\<rparr>"

definition empty_world :: world where
  "empty_world = \<lparr>dirs = {}, files = Map.empty, printed = []\<rparr>"

definition ready_world :: world where
  "ready_world = \<lparr>dirs = {''output_data''}, files = Map.empty, printed = []\<rparr>"

definition fresh_writer :: "pyval \<Rightarrow> csv_writer" where
  "fresh_writer am =
     \<lparr>config = [(''simulation'', PDict [(''csv_append_mode'', am)])],
      output_dir = ''output_data'',
      data_file = ''simulation_data.csv'',
      hazard_file = ''hazard_events.csv'',
      data_path = ''output_data/simulation_data.csv'',
      hazard_path = ''output_data/hazard_events.csv'',
      append_mode = am,
      write_header_data = True,
      write_header_hazard = True\<rparr>"

text \<open>
  A world where both files are there with their header rows, and the writer as a call of
  \<open>initialize_files\<close> in append mode leaves it there: both header flags cleared.
\<close>

definition headed_world :: world where
  "headed_world = ready_world\<lparr>files :=
     [''output_data/simulation_data.csv'' \<mapsto> data_header_line,
      ''output_data/hazard_events.csv'' \<mapsto> hazard_header_line]\<rparr>"

definition reused_writer :: csv_writer where
  "reused_writer =
     (fresh_writer (PBool True))\<lparr>write_header_data := False, write_header_hazard := False\<rparr>"

section \<open>Evaluation\<close>

text \<open>
  The equations of the two recursions on numbers rewrite a call of the function into
  another call of it: they are used only where asked for.
\<close>

declare show_nat.simps [simp del]
declare bit_length.simps [simp del]

lemmas format_eval = float_of_int_def cents_def round_half_even_def digit_char_def Let_def
  bit_length.simps show_nat.simps show_int_def

lemmas csv_eval = writerow_def csv_line_def csv_quote_def csv_special_def DQ_def CR_def LF_def

lemmas io_eval = with_open_def open_file_def close_file_def os_makedirs_def os_path_exists_def
  os_path_join_def is_dir_def dirname_def file_content_def print_def

lemmas input_eval = quiet_env_def fresh_writer_def ready_world_def empty_world_def
  headed_world_def reused_writer_def

section \<open>What a call can change\<close>

lemma with_open_world:
  "snd (with_open E p m body wd)
   = wd\<lparr>files := (files wd)(p := files (snd (with_open E p m body wd)) p)\<rparr>"
  by (simp add: with_open_def open_file_def close_file_def split: option.splits)

lemma with_open_dirs [simp]: "dirs (snd (with_open E p m body wd)) = dirs wd"
  by (subst with_open_world) simp

lemma with_open_printed [simp]: "printed (snd (with_open E p m body wd)) = printed wd"
  by (subst with_open_world) simp

lemma with_open_other:
  "q \<noteq> p \<Longrightarrow> files (snd (with_open E p m body wd)) q = files wd q"
  by (subst with_open_world) simp

lemma print_files [simp]: "files (snd (print E msg e wd)) = files wd"
  by (simp add: print_def split: option.splits)

lemma print_dirs [simp]: "dirs (snd (print E msg e wd)) = dirs wd"
  by (simp add: print_def split: option.splits)

lemma write_data_world:
  "snd (write_data E w sd st wd)
   = (let wd' = snd (with_open E (data_path w) ModeA
                  (sample_rows E (dict_get st ''simulation_time'' (PInt 0)) (dict_get st ''step'' (PInt 0)) sd []) wd)
      in if sd = [] then wd
         else case fst (write_data_try E w sd st wd) of
                Inl e \<Rightarrow> snd (print E ''Error writing data: '' e wd')
              | Inr u \<Rightarrow> wd')"
  by (simp add: write_data_def write_data_try_def Let_def split: prod.splits sum.splits)

lemma write_data_other:
  "q \<noteq> data_path w \<Longrightarrow> files (snd (write_data E w sd st wd)) q = files wd q"
  by (simp add: write_data_world Let_def with_open_other split: sum.splits)

lemma write_hazard_event_world:
  "snd (write_hazard_event E w ev wd)
   = (let wd' = snd (with_open E (hazard_path w) ModeA (Inr (), writerow E (hazard_row E ev)) wd)
      in case fst (write_hazard_event_try E w ev wd) of
           Inl e \<Rightarrow> snd (print E ''Error writing hazard event: '' e wd')
         | Inr u \<Rightarrow> wd')"
  by (simp add: write_hazard_event_def write_hazard_event_try_def Let_def split: prod.splits sum.splits)

lemma write_hazard_event_other:
  "q \<noteq> hazard_path w \<Longrightarrow> files (snd (write_hazard_event E w ev wd)) q = files wd q"
  by (simp add: write_hazard_event_world Let_def with_open_other split: sum.splits)

lemma CSVWriter_init_fields:
  assumes "CSVWriter_init E cfg wd = (Inr w, wd')"
  shows "data_path w = ''output_data/simulation_data.csv''"
    and "hazard_path w = ''output_data/hazard_events.csv''"
    and "output_dir w = ''output_data''"
    and "write_header_data w" and "write_header_hazard w"
  using assms
  by (auto simp: CSVWriter_init_def os_path_join_def split: prod.splits sum.splits option.splits pyval.splits if_splits)

lemma with_open_append_ok:
  assumes "\<not> open_fails E p" and "is_dir wd (dirname p)" and "p \<notin> dirs wd"
    and "write_limit E p = None"
  shows "with_open E p ModeA (r, buf) wd
       = (r, wd\<lparr>files := (files wd)(p \<mapsto> file_content wd p @ buf)\<rparr>)"
  using assms
  by (simp add: with_open_def open_file_def close_file_def file_content_def)

section \<open>An empty batch\<close>

text \<open>
  C4: \<open>write_data\<close> with an empty sequence of records returns normally and leaves the
  whole world (every file, every directory and the console) as it was, whatever the
  simulation state and whatever the environment would make fail.
\<close>

theorem write_data_empty_noop:
  "write_data E w [] simulation_state wd = (Inr (), wd)"
  by (simp add: write_data_def)

section \<open>The two destinations\<close>

text \<open>
  C10: for a writer built by the constructor the two paths differ; \<open>write_data\<close>
  leaves the events file as it was (absent or with the same content) and
  \<open>write_hazard_event\<close> leaves the samples file as it was, for every input and
  whatever fails.
\<close>

theorem destinations_disjoint:
  assumes "CSVWriter_init E0 cfg wd0 = (Inr w, wd1)"
  shows "data_path w \<noteq> hazard_path w
       \<and> files (snd (write_data E w sensor_data simulation_state wd)) (hazard_path w)
           = files wd (hazard_path w)
       \<and> files (snd (write_hazard_event E w hazard_event wd)) (data_path w)
           = files wd (data_path w)"
proof -
  have ne: "data_path w \<noteq> hazard_path w"
    using CSVWriter_init_fields(1,2) [OF assms] by simp
  show ?thesis
    using ne write_data_other [of "hazard_path w" w] write_hazard_event_other [of "data_path w" w]
    by simp
qed

theorem destinations_disjoint_witness:
  "data_path (fresh_writer (PBool False)) \<noteq> hazard_path (fresh_writer (PBool False))
   \<and> files (snd (write_data quiet_env (fresh_writer (PBool False)) [[(''id'', PStr ''veh0'')]]
               [(''step'', PInt 3)] ready_world)) (hazard_path (fresh_writer (PBool False)))
      = files ready_world (hazard_path (fresh_writer (PBool False)))
   \<and> files (snd (write_hazard_event quiet_env (fresh_writer (PBool False))
               [(''hazard_name'', PStr ''pothole'')] ready_world)) (data_path (fresh_writer (PBool False)))
      = files ready_world (data_path (fresh_writer (PBool False)))"
proof -
  have "CSVWriter_init quiet_env [(''simulation'', PDict [(''csv_append_mode'', PBool False)])] empty_world
      = (Inr (fresh_writer (PBool False)), ready_world)"
    by (simp add: CSVWriter_init_def os_path_exists_def os_makedirs_def quiet_env_def
        empty_world_def ready_world_def fresh_writer_def os_path_join_def dict_get_def)
  from destinations_disjoint [OF this] show ?thesis .
qed

section \<open>The default of the append mode\<close>

text \<open>
  C9: when the \<open>simulation\<close> section of the configuration has no key
  \<open>csv_append_mode\<close> (and the output directory exists or can be created), the
  constructor returns a writer whose \<open>append_mode\<close> is \<open>True\<close>.
\<close>

theorem append_mode_default:
  assumes "map_of cfg ''simulation'' = Some (PDict sim)"
    and "map_of sim ''csv_append_mode'' = None"
    and "os_path_exists wd ''output_data'' \<or> \<not> makedirs_fails E"
  shows "\<exists>w wd'. CSVWriter_init E cfg wd = (Inr w, wd') \<and> append_mode w = PBool True"
  using assms
  by (auto simp: CSVWriter_init_def os_makedirs_def dict_get_def)

theorem append_mode_default_witness:
  "\<exists>w wd'. CSVWriter_init quiet_env [(''simulation'', PDict [(''log_level'', PInt 2)])] empty_world
      = (Inr w, wd') \<and> append_mode w = PBool True"
  using append_mode_default [of "[(''simulation'', PDict [(''log_level'', PInt 2)])]"
      "[(''log_level'', PInt 2)]" empty_world quiet_env]
  by (simp add: quiet_env_def)

section \<open>One hazard event\<close>

lemma pothole_line:
  "writerow E (hazard_row E [(''timestamp'', PInt 12), (''hazard_name'', PStr ''pothole''),
      (''metadata'', PDict [])]) = ''12,pothole,{}'' @ [CR, LF]"
  by (simp add: writerow_def hazard_row_def dict_get_def csv_line_def csv_quote_def
      csv_special_def DQ_def CR_def LF_def show_int_def show_nat.simps digit_char_def)

lemma unknown_line:
  "writerow E (hazard_row E [(''timestamp'', PInt 12)]) = ''12,unknown,{}'' @ [CR, LF]"
  by (simp add: writerow_def hazard_row_def dict_get_def csv_line_def csv_quote_def
      csv_special_def DQ_def CR_def LF_def show_int_def show_nat.simps digit_char_def)

text \<open>
  C7: when the events file can be opened and written, \<open>write_hazard_event\<close>
  appends exactly one row to it and changes nothing else: the timestamp (0 when absent),
  the name (\<open>unknown\<close> when absent) and the text of the metadata (of the empty
  mapping when absent). The event named pothole with timestamp 12 and empty metadata
  gives the row \<open>12,pothole,{}\<close>; without a name the row is \<open>12,unknown,{}\<close>.
\<close>

theorem write_hazard_event_row:
  assumes "\<not> open_fails E (hazard_path w)"
    and "is_dir wd (dirname (hazard_path w))"
    and "hazard_path w \<notin> dirs wd"
    and "write_limit E (hazard_path w) = None"
  shows "write_hazard_event E w hazard_event wd
       = (Inr (), wd\<lparr>files := (files wd)(hazard_path w \<mapsto>
            file_content wd (hazard_path w) @
            csv_line [csv_cell E (dict_get hazard_event ''timestamp'' (PInt 0)),
                      csv_cell E (dict_get hazard_event ''hazard_name'' (PStr ''unknown'')),
                      py_str E (dict_get hazard_event ''metadata'' (PDict []))])\<rparr>)
     \<and> write_hazard_event E w
          [(''timestamp'', PInt 12), (''hazard_name'', PStr ''pothole''), (''metadata'', PDict [])] wd
       = (Inr (), wd\<lparr>files := (files wd)(hazard_path w \<mapsto>
            file_content wd (hazard_path w) @ ''12,pothole,{}'' @ [CR, LF])\<rparr>)
     \<and> write_hazard_event E w [(''timestamp'', PInt 12)] wd
       = (Inr (), wd\<lparr>files := (files wd)(hazard_path w \<mapsto>
            file_content wd (hazard_path w) @ ''12,unknown,{}'' @ [CR, LF])\<rparr>)"
proof -
  have step: "write_hazard_event E w ev wd
       = (Inr (), wd\<lparr>files := (files wd)(hazard_path w \<mapsto>
            file_content wd (hazard_path w) @ writerow E (hazard_row E ev))\<rparr>)" for ev
    using with_open_append_ok [OF assms]
    by (simp add: write_hazard_event_def write_hazard_event_try_def)
  have row: "writerow E (hazard_row E hazard_event)
       = csv_line [csv_cell E (dict_get hazard_event ''timestamp'' (PInt 0)),
                   csv_cell E (dict_get hazard_event ''hazard_name'' (PStr ''unknown'')),
                   py_str E (dict_get hazard_event ''metadata'' (PDict []))]"
    by (simp add: writerow_def hazard_row_def)
  show ?thesis
    using step [of hazard_event] row step [of "[(''timestamp'', PInt 12), (''hazard_name'', PStr ''pothole''), (''metadata'', PDict [])]"]
      step [of "[(''timestamp'', PInt 12)]"] pothole_line [of E] unknown_line [of E]
    by simp
qed

theorem write_hazard_event_row_witness:
  "write_hazard_event quiet_env (fresh_writer (PBool True))
      [(''timestamp'', PInt 12), (''hazard_name'', PStr ''pothole''), (''metadata'', PDict [])]
      (ready_world\<lparr>files := [''output_data/hazard_events.csv'' \<mapsto> ''timestamp,hazard_name,metadata'' @ [CR, LF]]\<rparr>)
   = (Inr (), ready_world\<lparr>files := [''output_data/hazard_events.csv'' \<mapsto>
        ''timestamp,hazard_name,metadata'' @ [CR, LF] @ ''12,pothole,{}'' @ [CR, LF]]\<rparr>)"
  using write_hazard_event_row [of quiet_env "fresh_writer (PBool True)"
      "ready_world\<lparr>files := [''output_data/hazard_events.csv'' \<mapsto> ''timestamp,hazard_name,metadata'' @ [CR, LF]]\<rparr>" "[]"]
  by (simp add: quiet_env_def fresh_writer_def ready_world_def is_dir_def dirname_def file_content_def)

section \<open>Two decimal digits\<close>

lemma is_digit_digit_char: "is_digit (digit_char n)"
proof -
  have "n mod 10 < length ''0123456789''" by simp
  then show ?thesis
    unfolding is_digit_def digit_char_def by (rule nth_mem)
qed

lemma not_digit_minus: "is_digit c \<Longrightarrow> c \<noteq> CHR ''-''"
  by (auto simp: is_digit_def)

lemma not_digit_dot: "\<not> is_digit (CHR ''.'')"
  by (simp add: is_digit_def)

lemma show_nat_digits: "c \<in> set (show_nat n) \<Longrightarrow> is_digit c"
proof (induction n arbitrary: c rule: show_nat.induct)
  case (1 n)
  from "1.prems" show_nat.simps [of n]
  have "c \<in> set (if n < 10 then [digit_char n] else show_nat (n div 10) @ [digit_char n])"
    by simp
  with "1.IH" show ?case
    by (auto simp: is_digit_digit_char split: if_splits)
qed

lemma show_nat_nonempty: "show_nat n \<noteq> []"
  using show_nat.simps [of n] by simp

lemma two_decimals_plain:
  assumes "is_digit a" and "is_digit b"
  shows "two_decimals (show_nat n @ ''.'' @ [a, b])"
proof -
  obtain c r where cr: "show_nat n = c # r"
    using show_nat_nonempty [of n] by (cases "show_nat n") auto
  have dc: "is_digit c" using show_nat_digits [of c n] cr by simp
  have tw: "takeWhile is_digit (show_nat n @ ''.'' @ [a, b]) = show_nat n"
    using show_nat_digits [of _ n] by (simp add: takeWhile_append2 not_digit_dot)
  have dw: "dropWhile is_digit (show_nat n @ ''.'' @ [a, b]) = ''.'' @ [a, b]"
    using show_nat_digits [of _ n] by (simp add: dropWhile_append2 not_digit_dot)
  have t: "(case show_nat n @ ''.'' @ [a, b] of [] \<Rightarrow> [] | c # r \<Rightarrow> if c = CHR ''-'' then r else show_nat n @ ''.'' @ [a, b])
      = show_nat n @ ''.'' @ [a, b]"
    using cr not_digit_minus [OF dc] by simp
  show ?thesis
    unfolding two_decimals_def t Let_def tw dw
    using assms show_nat_nonempty [of n] by simp
qed

lemma two_decimals_minus:
  assumes "is_digit a" and "is_digit b"
  shows "two_decimals (''-'' @ show_nat n @ ''.'' @ [a, b])"
proof -
  have tw: "takeWhile is_digit (show_nat n @ ''.'' @ [a, b]) = show_nat n"
    using show_nat_digits [of _ n] by (simp add: takeWhile_append2 not_digit_dot)
  have dw: "dropWhile is_digit (show_nat n @ ''.'' @ [a, b]) = ''.'' @ [a, b]"
    using show_nat_digits [of _ n] by (simp add: dropWhile_append2 not_digit_dot)
  show ?thesis
    unfolding two_decimals_def
    using assms show_nat_nonempty [of n] tw dw by simp
qed

lemma two_decimals_finite: "two_decimals (format_float_2f (Finite s m e))"
  using two_decimals_plain [OF is_digit_digit_char is_digit_digit_char]
    two_decimals_minus [OF is_digit_digit_char is_digit_digit_char]
  by (simp add: Let_def)

lemma float_of_int_cases:
  "float_of_int i = Inl OverflowError \<or> (\<exists>s m e. float_of_int i = Inr (Finite s m e))"
  by (simp add: float_of_int_def Let_def)

lemma format_2f_rendered:
  assumes "format_2f v = Inr c"
  shows "rendered_2f v c"
proof (cases v)
  case (PFloat x)
  with assms show ?thesis
    by (cases x) (auto simp: rendered_2f_def non_finite_def two_decimals_finite
        simp del: format_float_2f.simps(1) split: if_splits)
next
  case (PInt i)
  with assms float_of_int_cases [of i] show ?thesis
    by (auto simp: rendered_2f_def non_finite_def two_decimals_finite simp del: format_float_2f.simps(1))
next
  case (PBool b)
  with assms show ?thesis
    by (auto simp: rendered_2f_def non_finite_def two_decimals_def is_digit_def split: if_splits)
qed (use assms in auto)

lemma format_five: "format_2f (PInt 5) = Inr ''5.00''"
  by (simp add: format_eval)

text \<open>
  C5, as the code has it: in every row \<open>write_data\<close> builds, each of the fields x, y,
  speed, acceleration and angle (0 when absent) is rendered with exactly two decimal
  digits when its value is an integer, a boolean or a finite float, and as \<open>inf\<close>,
  \<open>-inf\<close> or \<open>nan\<close> when it is a float that is not finite. The integer 5 is
  rendered \<open>5.00\<close>.
\<close>

theorem sample_fields_two_decimals:
  assumes "sample_cells E timestamp step data = Inr cells"
  shows "\<exists>c0 c1 c2 c3 fx fy fs fa fg c9 c10.
           cells = [c0, c1, c2, c3, fx, fy, fs, fa, fg, c9, c10]
         \<and> rendered_2f (dict_get data ''x'' (PInt 0)) fx
         \<and> rendered_2f (dict_get data ''y'' (PInt 0)) fy
         \<and> rendered_2f (dict_get data ''speed'' (PInt 0)) fs
         \<and> rendered_2f (dict_get data ''acceleration'' (PInt 0)) fa
         \<and> rendered_2f (dict_get data ''angle'' (PInt 0)) fg
         \<and> format_2f (PInt 5) = Inr ''5.00''"
  using assms format_five
  by (auto simp: sample_cells_def format_2f_rendered split: sum.splits)

theorem sample_fields_two_decimals_witness:
  "two_decimals ''5.00'' \<and> two_decimals ''0.00''"
proof -
  have "sample_cells quiet_env (PInt 10) (PInt 3) [(''id'', PStr ''veh0''), (''speed'', PInt 5)]
      = Inr [''10'', ''3'', ''veh0'', [], ''0.00'', ''0.00'', ''5.00'', ''0.00'', ''0.00'', [], ''False'']"
    by (simp add: sample_cells_def dict_get_def format_eval)
  from sample_fields_two_decimals [OF this] show ?thesis
    by (simp add: rendered_2f_def non_finite_def dict_get_def)
qed

text \<open>
  C5 as stated fails for a float that is not a number: the record is written, and its
  speed is the text \<open>nan\<close>.
\<close>

theorem nan_not_two_decimals:
  "write_data quiet_env (fresh_writer (PBool True))
      [[(''id'', PStr ''veh0''), (''speed'', PFloat NaN)]]
      [(''simulation_time'', PInt 10), (''step'', PInt 3)] ready_world
   = (Inr (), ready_world\<lparr>files := [''output_data/simulation_data.csv'' \<mapsto>
        ''10,3,veh0,,0.00,0.00,nan,0.00,0.00,,False'' @ [CR, LF]]\<rparr>)
   \<and> \<not> two_decimals ''nan''"
proof -
  have cells: "sample_cells quiet_env (PInt 10) (PInt 3) [(''id'', PStr ''veh0''), (''speed'', PFloat NaN)]
      = Inr [''10'', ''3'', ''veh0'', [], ''0.00'', ''0.00'', ''nan'', ''0.00'', ''0.00'', [], ''False'']"
    by (simp add: sample_cells_def dict_get_def format_eval)
  have line: "csv_line [''10'', ''3'', ''veh0'', [], ''0.00'', ''0.00'', ''nan'', ''0.00'', ''0.00'', [], ''False'']
      = ''10,3,veh0,,0.00,0.00,nan,0.00,0.00,,False'' @ [CR, LF]"
    by (simp add: csv_eval)
  have "\<not> two_decimals ''nan''"
    by (simp add: two_decimals_def is_digit_def)
  then show ?thesis
    using cells line
    by (simp add: write_data_def write_data_try_def dict_get_def io_eval input_eval)
qed

section \<open>A batch of samples\<close>

lemma numeric_format: "numeric v \<Longrightarrow> format_2f v = Inr (fmt2 v)"
  using float_of_int_cases [of "case v of PInt i \<Rightarrow> i | _ \<Rightarrow> 0"]
  by (cases v) (auto simp: numeric_def fmt2_def)

lemma sample_cells_ok:
  assumes "sample_ok data"
  shows "csv_line (case sample_cells E timestamp step data of Inr cells \<Rightarrow> cells | Inl e \<Rightarrow> [])
           = spec_sample_line E timestamp step data
       \<and> (\<exists>cells. sample_cells E timestamp step data = Inr cells)"
  using assms
  by (simp add: sample_ok_def sample_cells_def spec_sample_line_def numeric_format)

lemma sample_rows_ok:
  "\<forall>data\<in>set sensor_data. sample_ok data \<Longrightarrow>
   sample_rows E timestamp step sensor_data buf
     = (Inr (), buf @ concat (map (spec_sample_line E timestamp step) sensor_data))"
proof (induction sensor_data arbitrary: buf)
  case Nil
  then show ?case by simp
next
  case (Cons data rest)
  from Cons.prems have ok: "sample_ok data" by simp
  from sample_cells_ok [OF ok, of E timestamp step]
  obtain cells where c: "sample_cells E timestamp step data = Inr cells"
    and l: "csv_line cells = spec_sample_line E timestamp step data"
    by auto
  from Cons.prems have "\<forall>d\<in>set rest. sample_ok d" by simp
  from Cons.IH [OF this] c l show ?case by simp
qed

text \<open>
  C6: for a non-empty list of records whose five numeric fields, where present, hold
  numbers that \<open>.2f\<close> accepts, and a samples file that can be opened and written,
  \<open>write_data\<close> appends exactly one row per record to the samples file, in the order
  of the list, every row starting with the same timestamp and step (0 when the state has
  none), and changes nothing else. An absent field is the empty text (id, type, lane),
  \<open>0.00\<close> (x, y, speed, acceleration, angle) or \<open>False\<close> (hazard_active).
\<close>

theorem write_data_rows:
  assumes "sensor_data \<noteq> []"
    and "\<forall>data\<in>set sensor_data. sample_ok data"
    and "\<not> open_fails E (data_path w)"
    and "is_dir wd (dirname (data_path w))"
    and "data_path w \<notin> dirs wd"
    and "write_limit E (data_path w) = None"
  shows "write_data E w sensor_data simulation_state wd
       = (Inr (), wd\<lparr>files := (files wd)(data_path w \<mapsto>
            file_content wd (data_path w) @
            concat (map (spec_sample_line E
                           (dict_get simulation_state ''simulation_time'' (PInt 0))
                           (dict_get simulation_state ''step'' (PInt 0)))
                        sensor_data))\<rparr>)"
  using assms(1) sample_rows_ok [OF assms(2)] with_open_append_ok [OF assms(3-6)]
  by (simp add: write_data_def write_data_try_def)

theorem write_data_rows_witness:
  "write_data quiet_env (fresh_writer (PBool False))
      [[(''id'', PStr ''veh0''), (''speed'', PInt 5)], [(''id'', PStr ''veh1''), (''hazard_active'', PBool True)]]
      [(''simulation_time'', PInt 10), (''step'', PInt 3)]
      (ready_world\<lparr>files := [''output_data/simulation_data.csv'' \<mapsto> ''h'' @ [CR, LF]]\<rparr>)
   = (Inr (), ready_world\<lparr>files := [''output_data/simulation_data.csv'' \<mapsto>
        ''h'' @ [CR, LF] @
        ''10,3,veh0,,0.00,0.00,5.00,0.00,0.00,,False'' @ [CR, LF] @
        ''10,3,veh1,,0.00,0.00,0.00,0.00,0.00,,True'' @ [CR, LF]]\<rparr>)"
proof -
  have num: "numeric (PInt 5)" "numeric (PInt 0)"
    by (simp_all add: numeric_def format_eval)
  show ?thesis
    using write_data_rows [of
        "[[(''id'', PStr ''veh0''), (''speed'', PInt 5)], [(''id'', PStr ''veh1''), (''hazard_active'', PBool True)]]"
        quiet_env "fresh_writer (PBool False)"
        "ready_world\<lparr>files := [''output_data/simulation_data.csv'' \<mapsto> ''h'' @ [CR, LF]]\<rparr>"
        "[(''simulation_time'', PInt 10), (''step'', PInt 3)]"]
    by (simp add: sample_ok_def num dict_get_def spec_sample_line_def fmt2_def
        format_eval csv_eval io_eval input_eval)
qed

section \<open>Initialisation\<close>

lemma writerow_data_header: "writerow E data_header = data_header_line"
  by (simp add: data_header_def data_header_line_def csv_eval)

lemma writerow_hazard_header: "writerow E hazard_header = hazard_header_line"
  by (simp add: hazard_header_def hazard_header_line_def csv_eval)

lemma with_open_w_ok:
  assumes "with_open E p ModeW (Inr (), buf) wd = (Inr u, wd')"
  shows "wd' = wd\<lparr>files := (files wd)(p \<mapsto> buf)\<rparr>"
  using assms
  by (auto simp: with_open_def open_file_def close_file_def file_content_def
      split: if_splits option.splits)

lemma initialize_files_True:
  assumes "initialize_files E w wd = (Inr True, w', wd')"
  shows "initialize_files_try E w wd = (Inr True, w', wd')"
  using assms
  by (auto simp: initialize_files_def split: prod.splits sum.splits)

lemma decide_headers_fields [simp]:
  "append_mode (decide_headers w wd) = append_mode w"
  "data_path (decide_headers w wd) = data_path w"
  "hazard_path (decide_headers w wd) = hazard_path w"
  by (auto simp: decide_headers_def Let_def)

lemma decide_headers_flags:
  "write_header_data (decide_headers w wd)
     = (write_header_data w \<and> \<not> (truthy (append_mode w) \<and> os_path_exists wd (data_path w)))"
  "write_header_hazard (decide_headers w wd)
     = (write_header_hazard w \<and> \<not> (truthy (append_mode w) \<and> os_path_exists wd (hazard_path w)))"
  by (auto simp: decide_headers_def Let_def)

lemma with_open_w_file:
  "files (snd (with_open E p ModeW (r, buf) wd)) p = files wd p
   \<or> (\<exists>k. files (snd (with_open E p ModeW (r, buf) wd)) p = Some (take k buf))"
proof (cases "fst (open_file E p ModeW wd)")
  case (Inl e)
  then show ?thesis
    by (auto simp: with_open_def open_file_def split: if_splits)
next
  case (Inr u)
  then have o: "open_file E p ModeW wd = (Inr (), wd\<lparr>files := (files wd)(p \<mapsto> [])\<rparr>)"
    by (auto simp: open_file_def split: if_splits)
  show ?thesis
  proof (cases "buf = []")
    case True
    with o have "files (snd (with_open E p ModeW (r, buf) wd)) p = Some (take 0 buf)"
      by (simp add: with_open_def close_file_def)
    then show ?thesis by blast
  next
    case False
    show ?thesis
    proof (cases "write_limit E p")
      case None
      with o False have "files (snd (with_open E p ModeW (r, buf) wd)) p = Some (take (length buf) buf)"
        by (simp add: with_open_def close_file_def file_content_def)
      then show ?thesis by blast
    next
      case (Some k)
      with o False have "files (snd (with_open E p ModeW (r, buf) wd)) p = Some (take k buf)"
        by (simp add: with_open_def close_file_def file_content_def)
      then show ?thesis by blast
    qed
  qed
qed

lemma initialize_files_try_world:
  "snd (snd (initialize_files_try E w wd))
   = (let w2 = decide_headers w wd;
          A = (\<not> truthy (append_mode w) \<or> write_header_data w2);
          B = (\<not> truthy (append_mode w) \<or> write_header_hazard w2);
          X = with_open E (data_path w) ModeW (Inr (), data_header_line) wd;
          wdA = (if A then snd X else wd)
      in if (A \<longrightarrow> fst X = Inr ()) \<and> B
         then snd (with_open E (hazard_path w) ModeW (Inr (), hazard_header_line) wdA)
         else wdA)"
  by (auto simp: initialize_files_try_def Let_def writerow_data_header writerow_hazard_header
      split: prod.splits sum.splits)

lemma initialize_files_world:
  "snd (snd (initialize_files E w wd))
   = (case fst (initialize_files_try E w wd) of
        Inl e \<Rightarrow> snd (print E ''Failed to initialize CSV files: '' e
                        (snd (snd (initialize_files_try E w wd))))
      | Inr b \<Rightarrow> snd (snd (initialize_files_try E w wd)))"
  by (simp add: initialize_files_def split: prod.splits sum.splits)

lemma initialize_files_files:
  "files (snd (snd (initialize_files E w wd))) = files (snd (snd (initialize_files_try E w wd)))"
  by (simp add: initialize_files_world split: sum.splits)

lemma initialize_files_dirs:
  "dirs (snd (snd (initialize_files E w wd))) = dirs wd"
proof -
  have "dirs (snd (snd (initialize_files E w wd))) = dirs (snd (snd (initialize_files_try E w wd)))"
    by (simp add: initialize_files_world split: sum.splits)
  then show ?thesis
    by (simp add: initialize_files_try_world Let_def)
qed

lemma initialize_files_writer:
  "fst (snd (initialize_files E w wd)) = decide_headers w wd"
  by (auto simp: initialize_files_def initialize_files_try_def Let_def split: prod.splits sum.splits)

lemma initialize_files_append_step:
  assumes "truthy (append_mode w)" and "data_path w \<noteq> hazard_path w"
  shows "files (snd (snd (initialize_files E w wd))) p = files wd p
       \<or> (\<not> os_path_exists wd p
          \<and> (\<exists>k. files (snd (snd (initialize_files E w wd))) p = Some (take k (header_line w p))))"
proof -
  let ?X = "with_open E (data_path w) ModeW (Inr (), data_header_line) wd"
  have other: "os_path_exists wd' q = os_path_exists wd q"
    if "files wd' q = files wd q" "dirs wd' = dirs wd" for wd' q
    using that by (simp add: os_path_exists_def)
  show ?thesis
  proof (cases "p = data_path w")
    case True
    with assms(2) have ph: "p \<noteq> hazard_path w" by simp
    show ?thesis
      using assms True with_open_w_file [of E "data_path w" "Inr ()" data_header_line wd]
      by (auto simp: initialize_files_files initialize_files_try_world Let_def header_line_def
          with_open_other decide_headers_flags)
  next
    case False
    note pd = False
    show ?thesis
    proof (cases "p = hazard_path w")
      case True
      have ex: "os_path_exists (snd ?X) (hazard_path w) = os_path_exists wd (hazard_path w)"
        using assms(2) by (simp add: os_path_exists_def with_open_other)
      show ?thesis
        using assms True pd ex
          with_open_w_file [of E "hazard_path w" "Inr ()" hazard_header_line wd]
          with_open_w_file [of E "hazard_path w" "Inr ()" hazard_header_line "snd ?X"]
        by (auto simp: initialize_files_files initialize_files_try_world Let_def header_line_def
            with_open_other os_path_exists_def decide_headers_flags)
    next
      case False
      with pd show ?thesis
        by (simp add: initialize_files_files initialize_files_try_world Let_def with_open_other)
    qed
  qed
qed

lemma initialize_files_success_world:
  assumes "initialize_files E w wd = (Inr True, w', wd')"
  shows "wd' = (let w2 = decide_headers w wd;
                    wdA = (if \<not> truthy (append_mode w) \<or> write_header_data w2
                           then wd\<lparr>files := (files wd)(data_path w \<mapsto> data_header_line)\<rparr>
                           else wd)
                in if \<not> truthy (append_mode w) \<or> write_header_hazard w2
                   then wdA\<lparr>files := (files wdA)(hazard_path w \<mapsto> hazard_header_line)\<rparr>
                   else wdA)"
  using initialize_files_True [OF assms]
  by (auto simp: initialize_files_try_def Let_def writerow_data_header writerow_hazard_header
      split: if_splits sum.splits prod.splits dest!: with_open_w_ok)

lemma initialize_files_skip:
  assumes "truthy (append_mode w)"
    and "\<not> write_header_data (decide_headers w wd)"
    and "\<not> write_header_hazard (decide_headers w wd)"
  shows "initialize_files E w wd = (Inr True, decide_headers w wd, wd)"
  using assms
  by (simp add: initialize_files_def initialize_files_try_def Let_def)

lemma initialize_files_succeeds:
  assumes "\<forall>p\<in>{data_path w, hazard_path w}.
             \<not> open_fails E p \<and> is_dir wd (dirname p) \<and> p \<notin> dirs wd \<and> write_limit E p = None"
  shows "fst (initialize_files E w wd) = Inr True"
  using assms
  by (simp add: initialize_files_def initialize_files_try_def Let_def with_open_def
      open_file_def close_file_def is_dir_def writerow_data_header writerow_hazard_header
      data_header_line_def hazard_header_line_def)

lemma header_line_decide [simp]: "header_line (decide_headers w wd) p = header_line w p"
  by (simp add: header_line_def)

subsection \<open>Paths and header flags between calls\<close>

text \<open>
  No call removes a path. A header flag is set by the constructor and cleared only when
  the file is there, so between calls a cleared flag goes with an existing file.
\<close>

lemma with_open_exists:
  assumes "os_path_exists wd q"
  shows "os_path_exists (snd (with_open E p m body wd)) q"
proof (cases "q = p")
  case False
  with assms show ?thesis
    by (simp add: os_path_exists_def with_open_other)
next
  case True
  have "files (snd (with_open E p m body wd)) p = files wd p
      \<or> files (snd (with_open E p m body wd)) p \<noteq> None"
    by (simp add: with_open_def open_file_def close_file_def split: option.splits)
  with assms True show ?thesis
    by (auto simp: os_path_exists_def)
qed

lemma initialize_files_exists:
  assumes "os_path_exists wd q"
  shows "os_path_exists (snd (snd (initialize_files E w wd))) q"
proof -
  have "os_path_exists (snd (snd (initialize_files_try E w wd))) q"
    using assms by (simp add: initialize_files_try_world Let_def with_open_exists)
  moreover have "dirs (snd (snd (initialize_files_try E w wd))) = dirs wd"
    by (simp add: initialize_files_try_world Let_def)
  ultimately show ?thesis
    unfolding os_path_exists_def initialize_files_files initialize_files_dirs by simp
qed

lemma write_data_exists:
  assumes "os_path_exists wd q"
  shows "os_path_exists (snd (write_data E w sd st wd)) q"
  using assms with_open_exists [OF assms]
  by (simp add: write_data_world Let_def os_path_exists_def split: sum.splits)

lemma write_hazard_event_exists:
  assumes "os_path_exists wd q"
  shows "os_path_exists (snd (write_hazard_event E w ev wd)) q"
  using with_open_exists [OF assms]
  by (simp add: write_hazard_event_world Let_def os_path_exists_def split: sum.splits)

lemma header_flags_kept:
  assumes "write_header_data w \<or> os_path_exists wd (data_path w)"
    and "write_header_hazard w \<or> os_path_exists wd (hazard_path w)"
    and "initialize_files E w wd = (r, w', wd')"
  shows "(write_header_data w' \<or> os_path_exists wd' (data_path w'))
       \<and> (write_header_hazard w' \<or> os_path_exists wd' (hazard_path w'))"
proof -
  have w': "w' = decide_headers w wd"
    using initialize_files_writer [of E w wd] assms(3) by simp
  have ex: "os_path_exists wd q \<Longrightarrow> os_path_exists wd' q" for q
    using initialize_files_exists [of wd q E w] assms(3) by simp
  show ?thesis
    using assms(1,2) ex [of "data_path w"] ex [of "hazard_path w"]
    by (auto simp: w' decide_headers_flags)
qed

subsection \<open>Header rows\<close>

text \<open>
  Where the rule on header rows holds: for a writer whose two paths differ and whose
  header flags are as the constructor leaves them (or, when a flag has been cleared by an
  earlier call, the file is still there), a call of \<open>initialize_files\<close> that returns
  \<open>True\<close> leaves each destination holding exactly its header row when the header is
  needed (not in append mode, or nothing at the path), and as it was otherwise. So
  outside append mode an existing file is truncated and its header rewritten.
\<close>

lemma initialize_files_headers:
  assumes "data_path w \<noteq> hazard_path w"
    and "write_header_data w \<or> os_path_exists wd (data_path w)"
    and "write_header_hazard w \<or> os_path_exists wd (hazard_path w)"
    and "initialize_files E w wd = (Inr True, w', wd')"
  shows "files wd' (data_path w)
           = (if spec_header_needed w wd (data_path w) then Some data_header_line
              else files wd (data_path w))
       \<and> files wd' (hazard_path w)
           = (if spec_header_needed w wd (hazard_path w) then Some hazard_header_line
              else files wd (hazard_path w))"
proof -
  note world = initialize_files_success_world [OF assms(4)]
  show ?thesis
    using assms(1-3)
    by (auto simp: world Let_def spec_header_needed_def decide_headers_flags)
qed

lemma initialize_files_headers_fresh:
  "files (snd (snd (initialize_files quiet_env (fresh_writer (PBool False))
      (ready_world\<lparr>files := [''output_data/simulation_data.csv'' \<mapsto> ''stale'']\<rparr>))))
     ''output_data/simulation_data.csv'' = Some data_header_line
   \<and> files (snd (snd (initialize_files quiet_env (fresh_writer (PBool False))
      (ready_world\<lparr>files := [''output_data/simulation_data.csv'' \<mapsto> ''stale'']\<rparr>))))
     ''output_data/hazard_events.csv'' = Some hazard_header_line"
proof -
  let ?wd = "ready_world\<lparr>files := [''output_data/simulation_data.csv'' \<mapsto> ''stale'']\<rparr>"
  let ?X = "initialize_files quiet_env (fresh_writer (PBool False)) ?wd"
  have "fst ?X = Inr True"
    by (simp add: initialize_files_def initialize_files_try_def decide_headers_def
        io_eval input_eval csv_eval)
  then have "?X = (Inr True, fst (snd ?X), snd (snd ?X))"
    by (metis prod.collapse)
  from initialize_files_headers [OF _ _ _ this] show ?thesis
    by (simp add: spec_header_needed_def fresh_writer_def)
qed

text \<open>
  C2 fails on a writer that is used again. The header flags are set by the constructor
  and only ever cleared: the first call of \<open>initialize_files\<close> in append mode that
  finds the files there clears both. When the files are gone at a later call, still in
  append mode, the headers are needed (nothing is at either path), yet the call opens
  no file, writes no header and returns \<open>True\<close>; the next \<open>write_data\<close> then
  creates a samples file that starts with a data row.
\<close>

theorem initialize_files_reused_writer:
  "CSVWriter_init quiet_env [(''simulation'', PDict [(''csv_append_mode'', PBool True)])] headed_world
     = (Inr (fresh_writer (PBool True)), headed_world)
   \<and> initialize_files quiet_env (fresh_writer (PBool True)) headed_world
     = (Inr True, reused_writer, headed_world)
   \<and> truthy (append_mode reused_writer)
   \<and> \<not> os_path_exists ready_world (data_path reused_writer)
   \<and> \<not> os_path_exists ready_world (hazard_path reused_writer)
   \<and> initialize_files quiet_env reused_writer ready_world = (Inr True, reused_writer, ready_world)
   \<and> write_data quiet_env reused_writer [[(''id'', PStr ''veh0'')]]
       [(''simulation_time'', PInt 10), (''step'', PInt 3)] ready_world
     = (Inr (), ready_world\<lparr>files := [''output_data/simulation_data.csv'' \<mapsto>
          ''10,3,veh0,,0.00,0.00,0.00,0.00,0.00,,False'' @ [CR, LF]]\<rparr>)"
proof (intro conjI)
  show "CSVWriter_init quiet_env [(''simulation'', PDict [(''csv_append_mode'', PBool True)])] headed_world
     = (Inr (fresh_writer (PBool True)), headed_world)"
    by (simp add: CSVWriter_init_def dict_get_def io_eval input_eval)
  show "initialize_files quiet_env (fresh_writer (PBool True)) headed_world
     = (Inr True, reused_writer, headed_world)"
    by (simp add: initialize_files_def initialize_files_try_def decide_headers_def
        io_eval input_eval)
  show "truthy (append_mode reused_writer)"
    by (simp add: input_eval)
  show "\<not> os_path_exists ready_world (data_path reused_writer)"
    by (simp add: io_eval input_eval)
  show "\<not> os_path_exists ready_world (hazard_path reused_writer)"
    by (simp add: io_eval input_eval)
  show "initialize_files quiet_env reused_writer ready_world = (Inr True, reused_writer, ready_world)"
    by (simp add: initialize_files_def initialize_files_try_def decide_headers_def
        io_eval input_eval)
  have cells: "sample_cells quiet_env (PInt 10) (PInt 3) [(''id'', PStr ''veh0'')]
      = Inr [''10'', ''3'', ''veh0'', [], ''0.00'', ''0.00'', ''0.00'', ''0.00'', ''0.00'', [], ''False'']"
    by (simp add: sample_cells_def dict_get_def format_eval)
  have line: "csv_line [''10'', ''3'', ''veh0'', [], ''0.00'', ''0.00'', ''0.00'', ''0.00'', ''0.00'', [], ''False'']
      = ''10,3,veh0,,0.00,0.00,0.00,0.00,0.00,,False'' @ [CR, LF]"
    by (simp add: csv_eval)
  show "write_data quiet_env reused_writer [[(''id'', PStr ''veh0'')]]
       [(''simulation_time'', PInt 10), (''step'', PInt 3)] ready_world
     = (Inr (), ready_world\<lparr>files := [''output_data/simulation_data.csv'' \<mapsto>
          ''10,3,veh0,,0.00,0.00,0.00,0.00,0.00,,False'' @ [CR, LF]]\<rparr>)"
    using cells line
    by (simp add: write_data_def write_data_try_def dict_get_def io_eval input_eval)
qed

subsection \<open>Initialising twice\<close>

text \<open>
  C3: in append mode, after two calls of \<open>initialize_files\<close> in a row, whatever
  fails in either, every file is as it was before the first call or did not exist then and
  now holds the beginning of one header row, all of it when the write did not fail: no
  file ever holds two header rows and no existing file is touched. When the first call
  returns \<open>True\<close> the second returns \<open>True\<close> and changes nothing at all.
\<close>

theorem initialize_twice_append:
  assumes "truthy (append_mode w)" and "data_path w \<noteq> hazard_path w"
    and "initialize_files E1 w wd = (r1, w1, wd1)"
    and "initialize_files E2 w1 wd1 = (r2, w2, wd2)"
  shows "(\<forall>p. files wd2 p = files wd p
            \<or> (\<not> os_path_exists wd p \<and> (\<exists>k. files wd2 p = Some (take k (header_line w p)))))
       \<and> (r1 = Inr True \<longrightarrow> r2 = Inr True \<and> wd2 = wd1)"
proof (intro conjI allI impI)
  have w1: "w1 = decide_headers w wd"
    using initialize_files_writer [of E1 w wd] assms(3) by simp
  have d1: "dirs wd1 = dirs wd"
    using initialize_files_dirs [of E1 w wd] assms(3) by simp
  have app1: "truthy (append_mode w1)" and ne1: "data_path w1 \<noteq> hazard_path w1"
    using assms(1,2) w1 by simp_all
  {
    fix p
    have s1: "files wd1 p = files wd p
        \<or> (\<not> os_path_exists wd p \<and> (\<exists>k. files wd1 p = Some (take k (header_line w p))))"
      using initialize_files_append_step [OF assms(1,2), of E1 wd p] assms(3) by simp
    have s2: "files wd2 p = files wd1 p
        \<or> (\<not> os_path_exists wd1 p \<and> (\<exists>k. files wd2 p = Some (take k (header_line w p))))"
      using initialize_files_append_step [OF app1 ne1, of E2 wd1 p] assms(4) w1 by simp
    show "files wd2 p = files wd p
        \<or> (\<not> os_path_exists wd p \<and> (\<exists>k. files wd2 p = Some (take k (header_line w p))))"
      using s1 s2 d1 by (auto simp: os_path_exists_def)
  }
  assume "r1 = Inr True"
  with assms(3) have ok: "initialize_files E1 w wd = (Inr True, w1, wd1)" by simp
  note wd1 = initialize_files_success_world [OF ok]
  have fd: "\<not> write_header_data (decide_headers w1 wd1)"
    using assms(1,2) w1 wd1
    by (auto simp: Let_def os_path_exists_def decide_headers_flags split: if_splits)
  have fh: "\<not> write_header_hazard (decide_headers w1 wd1)"
    using assms(1,2) w1 wd1
    by (auto simp: Let_def os_path_exists_def decide_headers_flags split: if_splits)
  from initialize_files_skip [OF app1 fd fh, of E2] assms(4)
  show "r2 = Inr True" and "wd2 = wd1" by simp_all
qed

theorem initialize_twice_append_witness:
  "files (snd (snd (initialize_files quiet_env
      (fst (snd (initialize_files quiet_env (fresh_writer (PBool True)) ready_world)))
      (snd (snd (initialize_files quiet_env (fresh_writer (PBool True)) ready_world))))))
     ''output_data/simulation_data.csv'' = Some data_header_line"
proof -
  let ?w = "fresh_writer (PBool True)"
  let ?X = "initialize_files quiet_env ?w ready_world"
  let ?Y = "initialize_files quiet_env (fst (snd ?X)) (snd (snd ?X))"
  have x: "?X = (Inr True, fst (snd ?X), snd (snd ?X))"
    by (simp add: initialize_files_def initialize_files_try_def decide_headers_def
        io_eval input_eval csv_eval prod_eq_iff)
  have y: "?Y = (fst ?Y, fst (snd ?Y), snd (snd ?Y))"
    by simp
  have first: "files (snd (snd ?X)) ''output_data/simulation_data.csv'' = Some data_header_line"
    by (simp add: initialize_files_def initialize_files_try_def decide_headers_def
        io_eval input_eval csv_eval data_header_def data_header_line_def)
  from initialize_twice_append [OF _ _ x y] have "snd (snd ?Y) = snd (snd ?X)"
    by (simp add: fresh_writer_def)
  with first show ?thesis by simp
qed

subsection \<open>The output directory\<close>

lemma CSVWriter_init_dirs:
  "dirs (snd (CSVWriter_init E cfg wd))
   = (if os_path_exists wd ''output_data'' \<or> makedirs_fails E then dirs wd
      else insert ''output_data'' (dirs wd))"
  by (auto simp: CSVWriter_init_def os_makedirs_def split: option.splits pyval.splits)

text \<open>
  C1, as the code has it: the output directory is made by the constructor, which creates
  it when nothing exists at the path and the creation does not fail;
  \<open>initialize_files\<close> never creates a directory, the directories after it are those
  before it.
\<close>

theorem directory_made_by_constructor:
  "dirs (snd (CSVWriter_init E cfg wd))
     = (if os_path_exists wd ''output_data'' \<or> makedirs_fails E then dirs wd
        else insert ''output_data'' (dirs wd))
   \<and> dirs (snd (snd (initialize_files E w wd))) = dirs wd"
  using CSVWriter_init_dirs initialize_files_dirs by simp

theorem directory_made_by_constructor_witness:
  "dirs (snd (CSVWriter_init quiet_env [(''simulation'', PDict [])] empty_world)) = {''output_data''}
   \<and> dirs (snd (snd (initialize_files quiet_env (fresh_writer (PBool True)) empty_world))) = {}"
  using directory_made_by_constructor [of quiet_env "[(''simulation'', PDict [])]" empty_world
      "fresh_writer (PBool True)"]
  by (simp add: input_eval os_path_exists_def)

text \<open>
  C1 as stated fails where the directory is absent when \<open>initialize_files\<close> runs:
  the call reports the failure, returns \<open>False\<close> and the directory is still absent.
\<close>

theorem initialize_files_no_directory:
  "initialize_files quiet_env (fresh_writer (PBool True)) empty_world
     = (Inr False, fresh_writer (PBool True),
        empty_world\<lparr>printed := [(''Failed to initialize CSV files: '', FileNotFoundError)]\<rparr>)
   \<and> \<not> is_dir (snd (snd (initialize_files quiet_env (fresh_writer (PBool True)) empty_world)))
         (output_dir (fresh_writer (PBool True)))"
  by (simp add: initialize_files_def initialize_files_try_def decide_headers_def
      io_eval input_eval)

section \<open>Exceptions\<close>

lemma initialize_files_try_printed:
  "printed (snd (snd (initialize_files_try E w wd))) = printed wd"
  by (simp add: initialize_files_try_world Let_def)

lemma initialize_files_try_result:
  "fst (initialize_files_try E w wd) = Inr b \<Longrightarrow> b"
  by (auto simp: initialize_files_try_def Let_def split: prod.splits sum.splits if_splits)

lemma with_open_a_file:
  "files (snd (with_open E p ModeA body wd)) p = files wd p
   \<or> (\<exists>k. files (snd (with_open E p ModeA body wd)) p
            = Some (file_content wd p @ take k (snd body)))"
proof (cases "fst (open_file E p ModeA wd)")
  case (Inl e)
  then show ?thesis
    by (auto simp: with_open_def open_file_def split: if_splits)
next
  case (Inr u)
  then have o: "open_file E p ModeA wd
      = (Inr (), wd\<lparr>files := (files wd)(p \<mapsto> file_content wd p)\<rparr>)"
    by (auto simp: open_file_def split: if_splits)
  show ?thesis
  proof (cases "snd body = []")
    case True
    with o have "files (snd (with_open E p ModeA body wd)) p
        = Some (file_content wd p @ take 0 (snd body))"
      by (simp add: with_open_def close_file_def)
    then show ?thesis by blast
  next
    case False
    show ?thesis
    proof (cases "write_limit E p")
      case None
      with o False have "files (snd (with_open E p ModeA body wd)) p
          = Some (file_content wd p @ take (length (snd body)) (snd body))"
        by (simp add: with_open_def close_file_def file_content_def)
      then show ?thesis by blast
    next
      case (Some k)
      with o False have "files (snd (with_open E p ModeA body wd)) p
          = Some (file_content wd p @ take k (snd body))"
        by (simp add: with_open_def close_file_def file_content_def)
      then show ?thesis by blast
    qed
  qed
qed

lemma initialize_files_left:
  "files (snd (snd (initialize_files E w wd))) q = files wd q
   \<or> q = data_path w
     \<and> (\<exists>k. files (snd (snd (initialize_files E w wd))) q = Some (take k data_header_line))
   \<or> q = hazard_path w
     \<and> (\<exists>k. files (snd (snd (initialize_files E w wd))) q = Some (take k hazard_header_line))"
proof -
  let ?X = "with_open E (data_path w) ModeW (Inr (), data_header_line) wd"
  have d: "files (snd ?X) q = files wd q
      \<or> q = data_path w \<and> (\<exists>k. files (snd ?X) q = Some (take k data_header_line))"
    using with_open_w_file [of E "data_path w" "Inr ()" data_header_line wd]
    by (cases "q = data_path w") (auto simp: with_open_other)
  have h: "files (snd (with_open E (hazard_path w) ModeW (Inr (), hazard_header_line) wd0)) q
        = files wd0 q
      \<or> q = hazard_path w
        \<and> (\<exists>k. files (snd (with_open E (hazard_path w) ModeW (Inr (), hazard_header_line) wd0)) q
                 = Some (take k hazard_header_line))" for wd0
    using with_open_w_file [of E "hazard_path w" "Inr ()" hazard_header_line wd0]
    by (cases "q = hazard_path w") (auto simp: with_open_other)
  show ?thesis
    using d h [of wd] h [of "snd ?X"]
    by (auto simp: initialize_files_files initialize_files_try_world Let_def)
qed

lemma write_data_left:
  "files (snd (write_data E w sd st wd)) q = files wd q
   \<or> q = data_path w
     \<and> (\<exists>k. files (snd (write_data E w sd st wd)) q
              = Some (file_content wd q @ take k
                  (snd (sample_rows E (dict_get st ''simulation_time'' (PInt 0))
                          (dict_get st ''step'' (PInt 0)) sd []))))"
proof (cases "q = data_path w")
  case False
  then show ?thesis by (simp add: write_data_other)
next
  case True
  let ?body = "sample_rows E (dict_get st ''simulation_time'' (PInt 0)) (dict_get st ''step'' (PInt 0)) sd []"
  from with_open_a_file [of E "data_path w" ?body wd] True show ?thesis
    by (auto simp: write_data_world Let_def split: sum.splits)
qed

lemma write_hazard_event_left:
  "files (snd (write_hazard_event E w ev wd)) q = files wd q
   \<or> q = hazard_path w
     \<and> (\<exists>k. files (snd (write_hazard_event E w ev wd)) q
              = Some (file_content wd q @ take k (writerow E (hazard_row E ev))))"
proof (cases "q = hazard_path w")
  case False
  then show ?thesis by (simp add: write_hazard_event_other)
next
  case True
  from with_open_a_file [of E "hazard_path w" "(Inr (), writerow E (hazard_row E ev))" wd] True
  show ?thesis
    by (auto simp: write_hazard_event_world Let_def split: sum.splits)
qed

lemma write_data_dirs: "dirs (snd (write_data E w sd st wd)) = dirs wd"
  by (simp add: write_data_world Let_def split: sum.splits)

lemma write_hazard_event_dirs: "dirs (snd (write_hazard_event E w ev wd)) = dirs wd"
  by (simp add: write_hazard_event_world Let_def split: sum.splits)

lemma initialize_files_outcome:
  "case fst (initialize_files_try E w wd) of
     Inr b \<Rightarrow> fst (initialize_files E w wd) = Inr True
            \<and> printed (snd (snd (initialize_files E w wd))) = printed wd
   | Inl e \<Rightarrow>
       (case print_fails E of
          None \<Rightarrow> fst (initialize_files E w wd) = Inr False
                 \<and> printed (snd (snd (initialize_files E w wd)))
                     = printed wd @ [(''Failed to initialize CSV files: '', e)]
        | Some x \<Rightarrow> fst (initialize_files E w wd) = Inl x
                 \<and> printed (snd (snd (initialize_files E w wd))) = printed wd)"
proof -
  obtain r w' wd' where t: "initialize_files_try E w wd = (r, w', wd')"
    by (cases "initialize_files_try E w wd")
  with initialize_files_try_printed [of E w wd] have p: "printed wd' = printed wd" by simp
  from t initialize_files_try_result [of E w wd] have b: "r = Inr b \<Longrightarrow> b" for b by simp
  from t p b show ?thesis
    by (cases r; cases "print_fails E") (auto simp: initialize_files_def print_def)
qed

lemma write_data_outcome:
  "if sd = [] then write_data E w sd st wd = (Inr (), wd)
   else case fst (write_data_try E w sd st wd) of
          Inr u \<Rightarrow> fst (write_data E w sd st wd) = Inr ()
                 \<and> printed (snd (write_data E w sd st wd)) = printed wd
        | Inl e \<Rightarrow>
            (case print_fails E of
               None \<Rightarrow> fst (write_data E w sd st wd) = Inr ()
                      \<and> printed (snd (write_data E w sd st wd))
                          = printed wd @ [(''Error writing data: '', e)]
             | Some x \<Rightarrow> fst (write_data E w sd st wd) = Inl x
                      \<and> printed (snd (write_data E w sd st wd)) = printed wd)"
proof -
  obtain r wd' where t: "write_data_try E w sd st wd = (r, wd')"
    by (cases "write_data_try E w sd st wd")
  have "printed (snd (write_data_try E w sd st wd)) = printed wd"
    by (simp add: write_data_try_def Let_def)
  with t have "printed wd' = printed wd" by simp
  with t show ?thesis
    by (cases r; cases "print_fails E") (auto simp: write_data_def print_def)
qed

lemma write_hazard_event_outcome:
  "case fst (write_hazard_event_try E w ev wd) of
     Inr u \<Rightarrow> fst (write_hazard_event E w ev wd) = Inr ()
            \<and> printed (snd (write_hazard_event E w ev wd)) = printed wd
   | Inl e \<Rightarrow>
       (case print_fails E of
          None \<Rightarrow> fst (write_hazard_event E w ev wd) = Inr ()
                 \<and> printed (snd (write_hazard_event E w ev wd))
                     = printed wd @ [(''Error writing hazard event: '', e)]
        | Some x \<Rightarrow> fst (write_hazard_event E w ev wd) = Inl x
                 \<and> printed (snd (write_hazard_event E w ev wd)) = printed wd)"
proof -
  obtain r wd' where t: "write_hazard_event_try E w ev wd = (r, wd')"
    by (cases "write_hazard_event_try E w ev wd")
  have "printed (snd (write_hazard_event_try E w ev wd)) = printed wd"
    by (simp add: write_hazard_event_try_def)
  with t have "printed wd' = printed wd" by simp
  with t show ?thesis
    by (cases r; cases "print_fails E") (auto simp: write_hazard_event_def print_def)
qed

text \<open>
  C8, as the code has it. Every exception raised inside the \<open>try\<close> of
  \<open>initialize_files\<close>, \<open>write_data\<close> or \<open>write_hazard_event\<close> (opening a file,
  writing it, formatting a field) is caught and handed to \<open>print\<close> with the message
  of the method. When that \<open>print\<close> succeeds the method returns \<open>False\<close>
  (initialisation) or returns normally (the two writes) and the line is on the console;
  when the \<open>print\<close> itself raises, its exception leaves the method. Without an
  exception nothing is printed and initialisation returns \<open>True\<close>. A call, failed or
  not, changes no directory and no file but its own destinations, and a destination is
  left as it was or holding the beginning of the text being written: after what the file
  held before for the two writes, alone for a header row. (The creation of the directory
  is not part of these methods.)
\<close>

theorem methods_catch_and_print:
  fixes E w wd sensor_data simulation_state hazard_event
  defines "I \<equiv> initialize_files E w wd"
    and "D \<equiv> write_data E w sensor_data simulation_state wd"
    and "H \<equiv> write_hazard_event E w hazard_event wd"
    and "rows \<equiv> snd (sample_rows E (dict_get simulation_state ''simulation_time'' (PInt 0))
                        (dict_get simulation_state ''step'' (PInt 0)) sensor_data [])"
    and "row \<equiv> writerow E (hazard_row E hazard_event)"
  shows
    "(case fst (initialize_files_try E w wd) of
        Inr b \<Rightarrow> fst I = Inr True \<and> printed (snd (snd I)) = printed wd
      | Inl e \<Rightarrow>
          (case print_fails E of
             None \<Rightarrow> fst I = Inr False
                    \<and> printed (snd (snd I)) = printed wd @ [(''Failed to initialize CSV files: '', e)]
           | Some x \<Rightarrow> fst I = Inl x \<and> printed (snd (snd I)) = printed wd))
     \<and> dirs (snd (snd I)) = dirs wd
     \<and> (\<forall>q. files (snd (snd I)) q = files wd q
            \<or> q = data_path w \<and> (\<exists>k. files (snd (snd I)) q = Some (take k data_header_line))
            \<or> q = hazard_path w \<and> (\<exists>k. files (snd (snd I)) q = Some (take k hazard_header_line)))
     \<and> (if sensor_data = [] then D = (Inr (), wd)
         else case fst (write_data_try E w sensor_data simulation_state wd) of
                Inr u \<Rightarrow> fst D = Inr () \<and> printed (snd D) = printed wd
              | Inl e \<Rightarrow>
                  (case print_fails E of
                     None \<Rightarrow> fst D = Inr ()
                            \<and> printed (snd D) = printed wd @ [(''Error writing data: '', e)]
                   | Some x \<Rightarrow> fst D = Inl x \<and> printed (snd D) = printed wd))
     \<and> dirs (snd D) = dirs wd
     \<and> (\<forall>q. files (snd D) q = files wd q
            \<or> q = data_path w \<and> (\<exists>k. files (snd D) q = Some (file_content wd q @ take k rows)))
     \<and> (case fst (write_hazard_event_try E w hazard_event wd) of
          Inr u \<Rightarrow> fst H = Inr () \<and> printed (snd H) = printed wd
        | Inl e \<Rightarrow>
            (case print_fails E of
               None \<Rightarrow> fst H = Inr ()
                      \<and> printed (snd H) = printed wd @ [(''Error writing hazard event: '', e)]
             | Some x \<Rightarrow> fst H = Inl x \<and> printed (snd H) = printed wd))
     \<and> dirs (snd H) = dirs wd
     \<and> (\<forall>q. files (snd H) q = files wd q
            \<or> q = hazard_path w \<and> (\<exists>k. files (snd H) q = Some (file_content wd q @ take k row)))"
  unfolding I_def D_def H_def rows_def row_def
  using initialize_files_outcome [of E w wd] initialize_files_left [of E w wd]
    write_data_outcome [of sensor_data E w simulation_state wd]
    write_data_left [of E w sensor_data simulation_state wd]
    write_hazard_event_outcome [of E w hazard_event wd]
    write_hazard_event_left [of E w hazard_event wd]
  by (simp add: initialize_files_dirs write_data_dirs write_hazard_event_dirs)

theorem methods_catch_and_print_witness:
  "fst (initialize_files (quiet_env\<lparr>open_fails := (\<lambda>p. True)\<rparr>) (fresh_writer (PBool True)) ready_world)
     = Inr False
   \<and> printed (snd (snd (initialize_files (quiet_env\<lparr>open_fails := (\<lambda>p. True)\<rparr>)
        (fresh_writer (PBool True)) ready_world)))
     = [(''Failed to initialize CSV files: '', OSError)]
   \<and> fst (write_data (quiet_env\<lparr>open_fails := (\<lambda>p. True)\<rparr>) (fresh_writer (PBool True))
        [[(''id'', PStr ''veh0'')]] [] ready_world) = Inr ()
   \<and> printed (snd (write_data (quiet_env\<lparr>open_fails := (\<lambda>p. True)\<rparr>) (fresh_writer (PBool True))
        [[(''id'', PStr ''veh0'')]] [] ready_world))
     = [(''Error writing data: '', OSError)]
   \<and> fst (write_hazard_event (quiet_env\<lparr>open_fails := (\<lambda>p. True)\<rparr>) (fresh_writer (PBool True))
        [] ready_world) = Inr ()
   \<and> printed (snd (write_hazard_event (quiet_env\<lparr>open_fails := (\<lambda>p. True)\<rparr>)
        (fresh_writer (PBool True)) [] ready_world))
     = [(''Error writing hazard event: '', OSError)]"
  using methods_catch_and_print [of "quiet_env\<lparr>open_fails := (\<lambda>p. True)\<rparr>"
      "fresh_writer (PBool True)" ready_world "[[(''id'', PStr ''veh0'')]]" "[]" "[]"]
  by (simp add: initialize_files_try_def decide_headers_def write_data_try_def
      write_hazard_event_try_def io_eval input_eval)

text \<open>
  C8 as stated fails in three places. The directory is created by the constructor
  outside any handler: when the creation fails the exception reaches the caller. The
  \<open>print\<close> of a handler is under no \<open>try\<close>: when the events file cannot be opened
  and the standard output is closed, \<open>write_hazard_event\<close> raises. And a write that
  fails is not a no-op: it leaves the beginning of the row in the file.
\<close>

theorem failures_not_contained:
  "fst (CSVWriter_init (quiet_env\<lparr>makedirs_fails := True\<rparr>)
      [(''simulation'', PDict [(''csv_append_mode'', PBool True)])] empty_world) = Inl OSError
   \<and> fst (write_hazard_event (quiet_env\<lparr>open_fails := (\<lambda>p. True), print_fails := Some ValueError\<rparr>)
        (fresh_writer (PBool True))
        [(''timestamp'', PInt 12), (''hazard_name'', PStr ''pothole''), (''metadata'', PDict [])]
        ready_world) = Inl ValueError
   \<and> write_hazard_event (quiet_env\<lparr>write_limit := (\<lambda>p. Some 3)\<rparr>) (fresh_writer (PBool True))
        [(''timestamp'', PInt 12), (''hazard_name'', PStr ''pothole''), (''metadata'', PDict [])]
        ready_world
     = (Inr (), ready_world\<lparr>files := [''output_data/hazard_events.csv'' \<mapsto> ''12,''],
                            printed := [(''Error writing hazard event: '', OSError)]\<rparr>)"
proof (intro conjI)
  show "fst (CSVWriter_init (quiet_env\<lparr>makedirs_fails := True\<rparr>)
      [(''simulation'', PDict [(''csv_append_mode'', PBool True)])] empty_world) = Inl OSError"
    by (simp add: CSVWriter_init_def io_eval input_eval)
  show "fst (write_hazard_event (quiet_env\<lparr>open_fails := (\<lambda>p. True), print_fails := Some ValueError\<rparr>)
        (fresh_writer (PBool True))
        [(''timestamp'', PInt 12), (''hazard_name'', PStr ''pothole''), (''metadata'', PDict [])]
        ready_world) = Inl ValueError"
    by (simp add: write_hazard_event_def write_hazard_event_try_def io_eval input_eval)
  show "write_hazard_event (quiet_env\<lparr>write_limit := (\<lambda>p. Some 3)\<rparr>) (fresh_writer (PBool True))
        [(''timestamp'', PInt 12), (''hazard_name'', PStr ''pothole''), (''metadata'', PDict [])]
        ready_world
     = (Inr (), ready_world\<lparr>files := [''output_data/hazard_events.csv'' \<mapsto> ''12,''],
                            printed := [(''Error writing hazard event: '', OSError)]\<rparr>)"
    using pothole_line [of "quiet_env\<lparr>write_limit := (\<lambda>p. Some 3)\<rparr>"]
    by (simp add: write_hazard_event_def write_hazard_event_try_def io_eval input_eval CR_def LF_def)
qed

end
